theory Spec2Isabelle
  imports Complex_Main "HOL-Library.Word"
begin

section \<open>Python strings and numbers used by the uploader\<close>

text \<open>
  A Python \<open>str\<close> is modelled as a \<open>string\<close>: a list of 8-bit characters, that is the code
  points below 256. \<open>isspace\<close> lists the code points below 256 for which Python's
  \<open>str.isspace\<close> holds; \<open>str.strip()\<close> removes exactly those from both ends.
\<close>

definition isspace :: "char \<Rightarrow> bool" where
  "isspace c = (of_char c \<in> set [9, 10, 11, 12, 13, 28, 29, 30, 31, 32, 133, 160 :: nat])"

definition strip :: "string \<Rightarrow> string" where
  "strip s = rev (dropWhile isspace (rev (dropWhile isspace s)))"

text \<open>\<open>s.replace(old, new)\<close> for one-character \<open>old\<close> and \<open>new\<close>, the only use in the source.\<close>

definition replace :: "char \<Rightarrow> char \<Rightarrow> string \<Rightarrow> string" where
  "replace old new s = map (\<lambda>c. if c = old then new else c) s"

definition lower_char :: "char \<Rightarrow> char" where
  "lower_char c =
     (case map_of (zip ''ABCDEFGHIJKLMNOPQRSTUVWXYZ'' ''abcdefghijklmnopqrstuvwxyz'') c of
        Some l \<Rightarrow> l
      | None \<Rightarrow> c)"

definition lower :: "string \<Rightarrow> string" where
  "lower s = map lower_char s"

text \<open>\<open>needle in hay\<close> on strings: some suffix of \<open>hay\<close> starts with \<open>needle\<close>.\<close>

fun contains :: "string \<Rightarrow> string \<Rightarrow> bool" where
  "contains needle [] = (needle = [])"
| "contains needle (c # cs) = (take (length needle) (c # cs) = needle \<or> contains needle cs)"

text \<open>\<open>str(n)\<close> of a Python int: decimal digits, with a leading minus sign when negative.\<close>

definition digit_char :: "nat \<Rightarrow> char" where
  "digit_char d = ''0123456789'' ! d"

fun str_nat :: "nat \<Rightarrow> string" where
  "str_nat n = (if n < 10 then [digit_char n] else str_nat (n div 10) @ [digit_char (n mod 10)])"

declare str_nat.simps [simp del]

definition str_int :: "int \<Rightarrow> string" where
  "str_int i = (if i < 0 then CHR ''-'' # str_nat (nat (- i)) else str_nat (nat i))"

text \<open>
  \<open>time.time()\<close> returns seconds since the epoch as a float; a reading is modelled as an exact
  \<open>real\<close>. \<open>int(x)\<close> of a float truncates towards zero.
\<close>

definition int_of_float :: "real \<Rightarrow> int" where
  "int_of_float x = (if x < 0 then \<lceil>x\<rceil> else \<lfloor>x\<rfloor>)"

text \<open>\<open>p.rfind(c)\<close>: the highest index holding \<open>c\<close>, or \<open>-1\<close>.\<close>

definition rfind :: "string \<Rightarrow> char \<Rightarrow> int" where
  "rfind p c = (case List.find (\<lambda>i. p ! i = c) (rev [0..<length p]) of None \<Rightarrow> - 1 | Some i \<Rightarrow> int i)"

text \<open>
  \<open>os.path.splitext\<close> (the POSIX flavour): the extension starts at the last dot of the last
  path component, unless only dots precede it in that component.
\<close>

definition splitext :: "string \<Rightarrow> string \<times> string" where
  "splitext p =
     (let sepIndex = rfind p (CHR ''/'');
          dotIndex = rfind p (CHR ''.'')
      in if dotIndex > sepIndex \<and>
            list_ex (\<lambda>filenameIndex. p ! filenameIndex \<noteq> CHR ''.'') [nat (sepIndex + 1)..<nat dotIndex]
         then (take (nat dotIndex) p, drop (nat dotIndex) p)
         else (p, []))"

text \<open>\<open>base64.b64encode(content).decode('utf-8')\<close>.\<close>

definition b64_alphabet :: string where
  "b64_alphabet = ''ABCDEFGHIJKLMNOPQRSTUVWXYZabcdefghijklmnopqrstuvwxyz0123456789+/''"

fun b64encode :: "8 word list \<Rightarrow> string" where
  "b64encode [] = []"
| "b64encode [a] =
     [b64_alphabet ! (unat a div 4), b64_alphabet ! ((unat a mod 4) * 16), CHR ''='', CHR ''='']"
| "b64encode [a, b] =
     [b64_alphabet ! (unat a div 4), b64_alphabet ! ((unat a mod 4) * 16 + unat b div 16),
      b64_alphabet ! ((unat b mod 16) * 4), CHR ''='']"
| "b64encode (a # b # c # rest) =
     [b64_alphabet ! (unat a div 4), b64_alphabet ! ((unat a mod 4) * 16 + unat b div 16),
      b64_alphabet ! ((unat b mod 16) * 4 + unat c div 64), b64_alphabet ! (unat c mod 64)]
     @ b64encode rest"

section \<open>The uploader's state and its environment\<close>

datatype jval = JNone | JBool bool | JStr string

type_synonym json = "(string \<times> jval) list"

record request =
  req_method :: string
  req_url :: string
  req_headers :: "(string \<times> string) list"
  req_json :: "json option"

text \<open>
  The decoded JSON body of a response, as far as the source looks at it: \<open>printed\<close> is
  \<open>str(result)\<close> and \<open>entries\<close> holds the string-valued entries of the object
  (\<open>result.get(key)\<close> is \<open>map_of (entries result) key\<close>).
\<close>

record body =
  printed :: string
  entries :: "(string \<times> string) list"

text \<open>
  What one \<open>session.request\<close> does: it raises an \<open>aiohttp.ClientError\<close> \<open>e\<close> (given by
  \<open>str(e)\<close>; a body that does not decode is one too), or it yields a status and a decoded
  body. The remote answers a request knowing the requests issued before it.
\<close>

datatype reply = ClientError string | Response int body

type_synonym server = "request list \<Rightarrow> request \<Rightarrow> reply"

datatype exn = Exception string

text \<open>
  The module's mutable state: the configured token, the \<open>_last_upload\<close> dictionary and the
  requests issued so far on the HTTP session.
\<close>

record world =
  github_token :: string
  last_upload :: "int \<rightharpoonup> real"
  calls :: "request list"

text \<open>The messages sent to the chat with \<open>utils.answer\<close>, named by their key in \<open>strings\<close>.\<close>

datatype answer =
    NoToken | TokenSet | InvalidToken | NoFile | Uploading
  | UploadSuccess string string | UploadError string
  | FileTooLarge | InvalidFilename | RateLimit

record file_info =
  file_name :: "string option"
  file_size :: int
  media :: "8 word list"

record reply_message =
  reply_file :: "file_info option"

record message =
  sender_id :: int
  reply_to :: "reply_message option"

section \<open>The uploader\<close>

definition get_repo_name :: "int \<Rightarrow> string" where
  "get_repo_name me_id = ''git-'' @ str_int me_id @ ''-files''"

definition invalid_chars :: string where
  "invalid_chars = [CHR ''<'', CHR ''>'', CHR '':'', CHR 0x22, CHR ''|'', CHR ''?'', CHR ''*'', CHR 0x5C]"

text \<open>\<open>_sanitize_filename\<close>; \<open>now\<close> is the reading of \<open>time.time()\<close> taken for a generated name.\<close>

definition sanitize_filename :: "real \<Rightarrow> string \<Rightarrow> string" where
  "sanitize_filename now filename =
     (let filename = replace (CHR '' '') (CHR ''*'') filename;
          filename = foldl (\<lambda>filename char.
                              if char \<noteq> CHR ''*'' then replace char (CHR ''_'') filename else filename)
                       filename invalid_chars;
          filename = (if strip filename = [] then ''file_'' @ str_int (int_of_float now) else filename)
      in strip filename)"

text \<open>\<open>_make_github_request\<close>: one request on the session, logged in \<open>calls\<close>.\<close>

definition build_request :: "string \<Rightarrow> string \<Rightarrow> string \<Rightarrow> json option \<Rightarrow> request" where
  "build_request token method endpoint data =
     \<lparr>req_method = method,
      req_url = ''https://api.github.com'' @ endpoint,
      req_headers = [(''Authorization'', ''token '' @ token),
                     (''Accept'', ''application/vnd.github.v3+json''),
                     (''User-Agent'', ''Heroku-GitHubUploader/1.0'')],
      req_json = data\<rparr>"

definition make_github_request ::
  "server \<Rightarrow> string \<Rightarrow> string \<Rightarrow> json option \<Rightarrow> world \<Rightarrow> (exn + body) \<times> world" where
  "make_github_request srv method endpoint data w =
     (let req = build_request (github_token w) method endpoint data;
          w' = w\<lparr>calls := calls w @ [req]\<rparr>
      in case srv (calls w) req of
           ClientError e \<Rightarrow> (Inl (Exception (''Network error: '' @ e)), w')
         | Response status result \<Rightarrow>
             if status = 403 \<and> contains ''rate limit'' (lower (printed result))
             then (Inl (Exception ''Rate limit exceeded''), w')
             else if status \<ge> 400
             then (Inl (Exception (case map_of (entries result) ''message'' of
                                     Some error_message \<Rightarrow> error_message
                                   | None \<Rightarrow> ''HTTP '' @ str_int status)), w')
             else (Inr result, w'))"

text \<open>\<open>_get_github_username\<close>; a body without \<open>login\<close> raises \<open>KeyError('login')\<close>, caught too.\<close>

definition get_github_username :: "server \<Rightarrow> world \<Rightarrow> (exn + string) \<times> world" where
  "get_github_username srv w =
     (case make_github_request srv ''GET'' ''/user'' None w of
        (Inl (Exception e), w') \<Rightarrow> (Inl (Exception (''Failed to get username: '' @ e)), w')
      | (Inr user_data, w') \<Rightarrow>
          (case map_of (entries user_data) ''login'' of
             None \<Rightarrow> (Inl (Exception (''Failed to get username: '' @ [CHR 0x27] @ ''login'' @ [CHR 0x27])), w')
           | Some login \<Rightarrow> (Inr login, w')))"

definition repository_exists :: "server \<Rightarrow> string \<Rightarrow> string \<Rightarrow> world \<Rightarrow> bool \<times> world" where
  "repository_exists srv username repo_name w =
     (case make_github_request srv ''GET'' (''/repos/'' @ username @ ''/'' @ repo_name) None w of
        (Inr _, w') \<Rightarrow> (True, w')
      | (Inl _, w') \<Rightarrow> (False, w'))"

definition create_repository :: "server \<Rightarrow> string \<Rightarrow> world \<Rightarrow> (exn + body) \<times> world" where
  "create_repository srv repo_name w =
     (let data = [(''name'', JStr repo_name),
                  (''description'', JStr ''File storage repository created by heroku userbot''),
                  (''private'', JBool False),
                  (''auto_init'', JBool True)]
      in make_github_request srv ''POST'' ''/user/repos'' (Some data) w)"

definition contents_endpoint :: "string \<Rightarrow> string \<Rightarrow> string \<Rightarrow> string" where
  "contents_endpoint username repo_name filename =
     ''/repos/'' @ username @ ''/'' @ repo_name @ ''/contents/'' @ filename"

text \<open>
  \<open>_get_unique_filename\<close>: the \<open>while True\<close> loop is \<open>probe\<close>, which has no value (\<open>None\<close>)
  when every candidate is taken.
\<close>

partial_function (option) probe ::
  "server \<Rightarrow> string \<Rightarrow> string \<Rightarrow> string \<Rightarrow> string \<Rightarrow> nat \<Rightarrow> string \<Rightarrow> world \<Rightarrow> (string \<times> world) option"
where
  "probe srv username repo_name name ext counter current_filename w =
     (case make_github_request srv ''GET'' (contents_endpoint username repo_name current_filename) None w of
        (Inr _, w') \<Rightarrow>
          probe srv username repo_name name ext (counter + 1)
            (name @ ''_'' @ str_nat (counter + 1) @ ext) w'
      | (Inl _, w') \<Rightarrow> Some (current_filename, w'))"

declare probe.simps [code]

definition get_unique_filename ::
  "server \<Rightarrow> string \<Rightarrow> string \<Rightarrow> string \<Rightarrow> world \<Rightarrow> (string \<times> world) option" where
  "get_unique_filename srv username repo_name filename w =
     (case splitext filename of
        (name, ext) \<Rightarrow> probe srv username repo_name name ext 0 filename w)"

text \<open>\<open>_upload_file\<close>; when the lookup succeeds without a \<open>sha\<close> entry, \<open>existing_sha\<close> stays \<open>None\<close>.\<close>

definition upload_file ::
  "server \<Rightarrow> string \<Rightarrow> string \<Rightarrow> string \<Rightarrow> 8 word list \<Rightarrow> world \<Rightarrow> (exn + body) \<times> world" where
  "upload_file srv username repo_name filename content w =
     (let content_b64 = b64encode content;
          endpoint = contents_endpoint username repo_name filename
      in case make_github_request srv ''GET'' endpoint None w of
           (existing, w') \<Rightarrow>
             (let file_exists = (case existing of Inr _ \<Rightarrow> True | Inl _ \<Rightarrow> False);
                  existing_sha =
                    (case existing of
                       Inr existing_file \<Rightarrow>
                         (case map_of (entries existing_file) ''sha'' of
                            Some sha \<Rightarrow> JStr sha
                          | None \<Rightarrow> JNone)
                     | Inl _ \<Rightarrow> JNone);
                  commit_message =
                    (if \<not> file_exists then ''Upload '' @ filename else ''Update '' @ filename);
                  data = [(''message'', JStr commit_message),
                          (''content'', JStr content_b64),
                          (''branch'', JStr ''main'')];
                  data = (if file_exists then data @ [(''sha'', existing_sha)] else data)
              in make_github_request srv ''PUT'' endpoint (Some data) w'))"

text \<open>\<open>_check_rate_limit\<close>; \<open>now\<close> is its reading of \<open>time.time()\<close>.\<close>

definition check_rate_limit :: "real \<Rightarrow> int \<Rightarrow> world \<Rightarrow> bool \<times> world" where
  "check_rate_limit now user_id w =
     (let last = (case last_upload w user_id of None \<Rightarrow> 0 | Some t \<Rightarrow> t)
      in if now - last < 10 then (False, w)
         else (True, w\<lparr>last_upload := (last_upload w)(user_id \<mapsto> now)\<rparr>))"


text \<open>
  The remote part of the \<open>try\<close> block of \<open>ghuploadcmd\<close>, from the identity lookup to the
  link: \<open>Inl\<close> is the exception that reaches \<open>except Exception as e\<close>, \<open>Inr\<close> the final
  file name and its raw URL. \<open>asyncio.sleep(2)\<close> changes nothing of the state.
\<close>

definition upload_steps ::
  "server \<Rightarrow> int \<Rightarrow> string \<Rightarrow> 8 word list \<Rightarrow> world \<Rightarrow> ((exn + string \<times> string) \<times> world) option" where
  "upload_steps srv me_id filename file_bytes w =
     (case get_github_username srv w of
        (Inl e, w1) \<Rightarrow> Some (Inl e, w1)
      | (Inr username, w1) \<Rightarrow>
          (let repo_name = get_repo_name me_id
           in case repository_exists srv username repo_name w1 of
                (repo_exists, w2) \<Rightarrow>
                  (case (if \<not> repo_exists
                         then (case create_repository srv repo_name w2 of
                                 (Inl e, w3) \<Rightarrow> (Some e, w3)
                               | (Inr _, w3) \<Rightarrow> (None, w3))
                         else (None, w2)) of
                     (Some e, w3) \<Rightarrow> Some (Inl e, w3)
                   | (None, w3) \<Rightarrow>
                       (case get_unique_filename srv username repo_name filename w3 of
                          None \<Rightarrow> None
                        | Some (unique_filename, w4) \<Rightarrow>
                            (case upload_file srv username repo_name unique_filename file_bytes w4 of
                               (Inl e, w5) \<Rightarrow> Some (Inl e, w5)
                             | (Inr upload_result, w5) \<Rightarrow>
                                 Some (Inr (unique_filename,
                                            ''https://raw.githubusercontent.com/'' @ username @ ''/''
                                              @ repo_name @ ''/main/'' @ unique_filename), w5))))))"

text \<open>
  \<open>ghuploadcmd\<close>. \<open>me_id\<close> is \<open>self._me.id\<close>; \<open>now\<close> is the reading of \<open>time.time()\<close> in the
  rate check and \<open>later\<close> the reading for a generated file name (at most one is taken on any
  path: a missing name is generated before \<open>_sanitize_filename\<close>, which then keeps it). The
  result lists the answers sent, in order; it is \<open>None\<close> when the probe loop never ends.
  Reading the reply, downloading its media and sending an answer are calls to the chat
  platform, modelled as not raising.
\<close>

definition ghuploadcmd ::
  "server \<Rightarrow> int \<Rightarrow> real \<Rightarrow> real \<Rightarrow> message \<Rightarrow> world \<Rightarrow> (answer list \<times> world) option" where
  "ghuploadcmd srv me_id now later msg w =
     (if github_token w = [] then Some ([NoToken], w)
      else
        (case check_rate_limit now (sender_id msg) w of
           (False, w1) \<Rightarrow> Some ([RateLimit], w1)
         | (True, w1) \<Rightarrow>
             (case reply_to msg of
                None \<Rightarrow> Some ([NoFile], w1)
              | Some reply \<Rightarrow>
                  (case reply_file reply of
                     None \<Rightarrow> Some ([NoFile], w1)
                   | Some f \<Rightarrow>
                       if file_size f > 100 * 1024 * 1024 then Some ([FileTooLarge], w1)
                       else
                         (let file_bytes = media f;
                              generated = ''file_'' @ str_int (int_of_float later);
                              filename = (case file_name f of
                                            None \<Rightarrow> generated
                                          | Some n \<Rightarrow> if n = [] then generated else n);
                              filename = sanitize_filename later filename
                          in if filename = [] then Some ([Uploading, InvalidFilename], w1)
                             else
                               (case upload_steps srv me_id filename file_bytes w1 of
                                  None \<Rightarrow> None
                                | Some (Inl (Exception e), w2) \<Rightarrow>
                                    Some ([Uploading, UploadError e], w2)
                                | Some (Inr (unique_filename, raw_url), w2) \<Rightarrow>
                                    Some ([Uploading, UploadSuccess unique_filename raw_url], w2)))))))"

section \<open>Auxiliary notions for the statements\<close>

text \<open>What the two replacement passes of \<open>_sanitize_filename\<close> do to one character.\<close>

definition clean_char :: "char \<Rightarrow> char" where
  "clean_char c =
     (if c = CHR '' '' then CHR ''*''
      else if c \<in> set [CHR ''<'', CHR ''>'', CHR '':'', CHR 0x22, CHR ''|'', CHR ''?'', CHR 0x5C]
      then CHR ''_'' else c)"

text \<open>The name generated at time \<open>now\<close>, and the characters such a name is made of.\<close>

definition generated_name :: "real \<Rightarrow> string" where
  "generated_name now = ''file_'' @ str_int (int_of_float now)"

definition name_char :: "char \<Rightarrow> bool" where
  "name_char c = (c \<in> set ''file_-0123456789'')"

text \<open>
  The sanitizer as the specification words it: the four steps, in order. Step 3 uses the
  whole seconds of the clock reading, step 4 trims with \<open>strip\<close>.
\<close>

definition sanitize_spec :: "real \<Rightarrow> string \<Rightarrow> string" where
  "sanitize_spec now name =
     (let step1 = map (\<lambda>c. if c = CHR '' '' then CHR ''*'' else c) name;
          step2 = map (\<lambda>c. if c \<in> set [CHR ''<'', CHR ''>'', CHR '':'', CHR 0x22, CHR ''|'', CHR ''?'', CHR 0x5C]
                              then CHR ''_'' else c) step1;
          step3 = (if step2 = [] \<or> list_all isspace step2
                   then ''file_'' @ str_int (int_of_float now) else step2)
      in strip step3)"

text \<open>
  The timestamp \<open>_check_rate_limit\<close> compares with: the stored one, or \<open>0\<close> for an identity
  without an entry (\<open>self._last_upload.get(user_id, 0)\<close>).
\<close>

definition last_accepted :: "world \<Rightarrow> int \<Rightarrow> real" where
  "last_accepted w user_id = (case last_upload w user_id of None \<Rightarrow> 0 | Some t \<Rightarrow> t)"

text \<open>
  The candidates of the collision resolver: the file name itself, then stem, underscore,
  counter and extension.
\<close>

definition candidate :: "string \<Rightarrow> nat \<Rightarrow> string" where
  "candidate filename k =
     (if k = 0 then filename
      else fst (splitext filename) @ ''_'' @ str_nat k @ snd (splitext filename))"

text \<open>
  A path exists when its lookup returns instead of raising. The repository state is the set
  of such paths; it is the same at every probe when the remote is \<open>static\<close>, that is when its
  answers do not depend on the requests made before.
\<close>

definition lookup_succeeds :: "server \<Rightarrow> world \<Rightarrow> string \<Rightarrow> string \<Rightarrow> string \<Rightarrow> bool" where
  "lookup_succeeds srv w username repo_name path =
     (case fst (make_github_request srv ''GET'' (contents_endpoint username repo_name path) None w) of
        Inr _ \<Rightarrow> True
      | Inl _ \<Rightarrow> False)"

definition static :: "server \<Rightarrow> bool" where
  "static srv = (\<forall>h. srv h = srv [])"

definition repo_paths :: "server \<Rightarrow> world \<Rightarrow> string \<Rightarrow> string \<Rightarrow> string set" where
  "repo_paths srv w username repo_name = {path. lookup_succeeds srv w username repo_name path}"

text \<open>
  Sample data for concrete runs: a remote that knows the account \<open>octo\<close> for the token
  \<open>secret\<close> and holds \<open>a.txt\<close> and \<open>a_1.txt\<close>, a remote that is down, a state with and one
  without a token, and messages replying to a small file, to a file of 150 MB and to nothing.
\<close>

definition example_server :: server where
  "example_server hist r =
     (if req_url r = ''https://api.github.com/user''
      then (if (''Authorization'', ''token secret'') \<in> set (req_headers r)
            then Response 200 \<lparr>printed = ''{}'', entries = [(''login'', ''octo'')]\<rparr>
            else Response 401 \<lparr>printed = ''{}'', entries = [(''message'', ''Bad credentials'')]\<rparr>)
      else if req_url r \<in> set [''https://api.github.com/repos/octo/git-42-files/contents/a.txt'',
                                ''https://api.github.com/repos/octo/git-42-files/contents/a_1.txt'']
      then Response 200 \<lparr>printed = ''{}'', entries = []\<rparr>
      else Response 404 \<lparr>printed = ''{}'', entries = []\<rparr>)"

definition down_server :: server where
  "down_server hist r = ClientError ''Cannot connect to host''"

definition example_world :: world where
  "example_world = \<lparr>github_token = ''secret'', last_upload = Map.empty, calls = []\<rparr>"

definition tokenless_world :: world where
  "tokenless_world = \<lparr>github_token = [], last_upload = Map.empty, calls = []\<rparr>"

definition small_message :: message where
  "small_message =
     \<lparr>sender_id = 7,
      reply_to = Some \<lparr>reply_file = Some \<lparr>file_name = Some ''   '', file_size = 2000000, media = []\<rparr>\<rparr>\<rparr>"

definition big_message :: message where
  "big_message =
     \<lparr>sender_id = 7,
      reply_to = Some \<lparr>reply_file = Some \<lparr>file_name = Some ''big.bin'', file_size = 150000000, media = []\<rparr>\<rparr>\<rparr>"

definition bare_message :: message where
  "bare_message = \<lparr>sender_id = 7, reply_to = None\<rparr>"

section \<open>The filename sanitizer\<close>

lemma dropWhile_all_iff: "(\<forall>x\<in>set (dropWhile P xs). P x) \<longleftrightarrow> (\<forall>x\<in>set xs. P x)"
proof
  assume h: "\<forall>x\<in>set (dropWhile P xs). P x"
  have "dropWhile P xs = []"
  proof (rule ccontr)
    assume "dropWhile P xs \<noteq> []"
    then have "\<not> P (hd (dropWhile P xs))" by (rule hd_dropWhile)
    moreover have "hd (dropWhile P xs) \<in> set (dropWhile P xs)"
      using \<open>dropWhile P xs \<noteq> []\<close> by simp
    ultimately show False using h by blast
  qed
  then show "\<forall>x\<in>set xs. P x" by (simp add: dropWhile_eq_Nil_conv)
next
  assume "\<forall>x\<in>set xs. P x"
  then show "\<forall>x\<in>set (dropWhile P xs). P x" by (auto dest: set_dropWhileD)
qed

lemma strip_Nil_iff: "strip s = [] \<longleftrightarrow> list_all isspace s"
  by (simp add: strip_def dropWhile_eq_Nil_conv dropWhile_all_iff list_all_iff)

lemma set_strip: "c \<in> set (strip s) \<Longrightarrow> c \<in> set s"
  unfolding strip_def by (metis set_dropWhileD set_rev)

lemma dropWhile_snoc: "\<not> P x \<Longrightarrow> dropWhile P (ys @ [x]) = dropWhile P ys @ [x]"
  by (induction ys) auto

lemma strip_ends:
  assumes "strip s \<noteq> []"
  shows "\<not> isspace (hd (strip s))" and "\<not> isspace (last (strip s))"
proof -
  let ?t = "dropWhile isspace s"
  let ?u = "dropWhile isspace (rev ?t)"
  have u: "?u \<noteq> []" using assms by (simp add: strip_def)
  then have "\<not> isspace (hd ?u)" by (rule hd_dropWhile)
  then show "\<not> isspace (last (strip s))" using u by (simp add: strip_def last_rev)
  have t: "?t \<noteq> []"
  proof
    assume "?t = []"
    with u show False by simp
  qed
  then obtain x t' where xt: "?t = x # t'" by (cases ?t) auto
  have "\<not> isspace (hd ?t)" using t by (rule hd_dropWhile)
  then have nx: "\<not> isspace x" using xt by simp
  have "strip s = rev (dropWhile isspace (rev t' @ [x]))" by (simp add: strip_def xt)
  also have "\<dots> = x # rev (dropWhile isspace (rev t'))" using nx by (simp add: dropWhile_snoc)
  finally show "\<not> isspace (hd (strip s))" using nx by simp
qed

lemma strip_fixed:
  assumes "s \<noteq> []" "\<not> isspace (hd s)" "\<not> isspace (last s)"
  shows "strip s = s"
proof -
  have "dropWhile isspace s = s" using assms by (cases s) auto
  moreover have "dropWhile isspace (rev s) = rev s"
    using assms by (cases "rev s") (auto simp: last_rev hd_rev)
  ultimately show ?thesis by (simp add: strip_def)
qed

lemma replace_chain:
  "foldl (\<lambda>filename char. if char \<noteq> CHR ''*'' then replace char (CHR ''_'') filename else filename)
     (replace (CHR '' '') (CHR ''*'') s) invalid_chars = map clean_char s"
  by (simp add: invalid_chars_def replace_def clean_char_def)

lemma strip_strip: "strip (strip s) = strip s"
proof (cases "strip s = []")
  case True
  have "strip [] = []" by (simp add: strip_def)
  with True show ?thesis by simp
next
  case False
  then show ?thesis using strip_ends [of s] by (simp add: strip_fixed)
qed

lemma sanitize_filename_unfold:
  "sanitize_filename now s =
     strip (if strip (map clean_char s) = [] then generated_name now else map clean_char s)"
  by (simp add: sanitize_filename_def replace_chain generated_name_def Let_def)

lemma clean_char_idem: "clean_char (clean_char c) = clean_char c"
  by (simp add: clean_char_def)

lemma digit_char_cases: "d < 10 \<Longrightarrow> digit_char d \<in> set ''0123456789''"
proof -
  assume "d < 10"
  then have "d = 0 \<or> d = 1 \<or> d = 2 \<or> d = 3 \<or> d = 4 \<or> d = 5 \<or> d = 6 \<or> d = 7 \<or> d = 8 \<or> d = 9"
    by arith
  then show ?thesis by (auto simp: digit_char_def)
qed

lemma set_str_nat: "c \<in> set (str_nat n) \<Longrightarrow> c \<in> set ''0123456789''"
proof (induction n arbitrary: c rule: str_nat.induct)
  case (1 n)
  show ?case
  proof (cases "n < 10")
    case True
    with "1.prems" digit_char_cases [of n] show ?thesis by (simp add: str_nat.simps [of n])
  next
    case False
    have "n mod 10 < 10" by simp
    then have d: "digit_char (n mod 10) \<in> set ''0123456789''" by (rule digit_char_cases)
    from "1.prems" False have "c \<in> set (str_nat (n div 10)) \<or> c = digit_char (n mod 10)"
      by (auto simp: str_nat.simps [of n])
    then show ?thesis
    proof
      assume "c \<in> set (str_nat (n div 10))"
      with False "1.IH" show ?thesis by blast
    next
      assume "c = digit_char (n mod 10)"
      with d show ?thesis by simp
    qed
  qed
qed

lemma str_nat_not_Nil: "str_nat n \<noteq> []"
  by (simp add: str_nat.simps [of n])

lemma name_chars_plain: "list_all (\<lambda>c. \<not> isspace c \<and> clean_char c = c) ''file_-0123456789''"
  by (simp add: isspace_def clean_char_def)

lemma name_char_plain: "name_char c \<Longrightarrow> \<not> isspace c \<and> clean_char c = c"
  using name_chars_plain unfolding name_char_def list_all_iff by blast

lemma generated_name_chars: "c \<in> set (generated_name now) \<Longrightarrow> name_char c"
proof -
  assume "c \<in> set (generated_name now)"
  then have "c \<in> set ''file_-'' \<or> (\<exists>n. c \<in> set (str_nat n))"
    by (auto simp: generated_name_def str_int_def split: if_splits)
  then show ?thesis
  proof
    assume "c \<in> set ''file_-''"
    then show ?thesis by (auto simp: name_char_def)
  next
    assume "\<exists>n. c \<in> set (str_nat n)"
    then obtain n where "c \<in> set (str_nat n)" ..
    then have "c \<in> set ''0123456789''" by (rule set_str_nat)
    then show ?thesis by (auto simp: name_char_def)
  qed
qed

lemma generated_name_not_Nil: "generated_name now \<noteq> []"
  by (simp add: generated_name_def)

lemma strip_generated_name: "strip (generated_name now) = generated_name now"
proof (rule strip_fixed)
  show "generated_name now \<noteq> []" by (rule generated_name_not_Nil)
  have "hd (generated_name now) \<in> set (generated_name now)"
    and "last (generated_name now) \<in> set (generated_name now)"
    using generated_name_not_Nil by simp_all
  then show "\<not> isspace (hd (generated_name now))" and "\<not> isspace (last (generated_name now))"
    using generated_name_chars name_char_plain by blast+
qed

lemma clean_generated_name: "map clean_char (generated_name now) = generated_name now"
  by (rule map_idI) (simp add: generated_name_chars name_char_plain)

lemma clean_clean: "map clean_char (map clean_char s) = map clean_char s"
  by (simp add: clean_char_idem)

lemma clean_strip_clean: "map clean_char (strip (map clean_char s)) = strip (map clean_char s)"
proof (rule map_idI)
  fix c assume "c \<in> set (strip (map clean_char s))"
  then have "c \<in> set (map clean_char s)" by (rule set_strip)
  then show "clean_char c = c" by (auto simp: clean_char_idem)
qed

lemma sanitize_filename_not_Nil: "sanitize_filename now s \<noteq> []"
  by (simp add: sanitize_filename_unfold strip_generated_name generated_name_not_Nil)

lemma sanitize_filename_fixed:
  "sanitize_filename later (sanitize_filename now s) = sanitize_filename now s"
proof (cases "strip (map clean_char s) = []")
  case True
  then have "sanitize_filename now s = generated_name now"
    by (simp add: sanitize_filename_unfold strip_generated_name)
  then show ?thesis
    by (simp add: sanitize_filename_unfold clean_generated_name strip_generated_name
        generated_name_not_Nil)
next
  case False
  then have y: "sanitize_filename now s = strip (map clean_char s)"
    by (simp add: sanitize_filename_unfold)
  show ?thesis unfolding y
    using False by (simp add: sanitize_filename_unfold clean_strip_clean strip_strip)
qed

section \<open>Claims about the filename sanitizer\<close>

text \<open>
  Claim C1, as amended. For every clock reading: \<open>sanitize("a b.txt")\<close> is \<open>"a*b.txt"\<close> and
  \<open>sanitize('a<b>.txt')\<close> is \<open>"a_b_.txt"\<close>; \<open>sanitize("   ")\<close> is \<open>"***"\<close>, since the spaces
  become asterisks before the blank check; the generated name \<open>file_<timestamp>\<close> is what the
  empty name and a name of one tab give.
\<close>

theorem sanitize_examples:
  "sanitize_filename now ''a b.txt'' = ''a*b.txt''
   \<and> sanitize_filename now ''a<b>.txt'' = ''a_b_.txt''
   \<and> sanitize_filename now ''   '' = ''***''
   \<and> sanitize_filename now [] = ''file_'' @ str_int (int_of_float now)
   \<and> sanitize_filename now [CHR 0x09] = ''file_'' @ str_int (int_of_float now)"
proof -
  have e: "strip (generated_name now) = ''file_'' @ str_int (int_of_float now)"
    unfolding strip_generated_name by (simp add: generated_name_def)
  have "sanitize_filename now ''a b.txt'' = ''a*b.txt''"
    by (simp add: sanitize_filename_unfold clean_char_def strip_def isspace_def)
  moreover have "sanitize_filename now ''a<b>.txt'' = ''a_b_.txt''"
    by (simp add: sanitize_filename_unfold clean_char_def strip_def isspace_def)
  moreover have "sanitize_filename now ''   '' = ''***''"
    by (simp add: sanitize_filename_unfold clean_char_def strip_def isspace_def)
  moreover have "sanitize_filename now [] = ''file_'' @ str_int (int_of_float now)"
    using e by (simp add: sanitize_filename_unfold strip_Nil_iff)
  moreover have "sanitize_filename now [CHR 0x09] = ''file_'' @ str_int (int_of_float now)"
    using e by (simp add: sanitize_filename_unfold strip_Nil_iff clean_char_def isspace_def)
  ultimately show ?thesis by simp
qed

text \<open>
  Claim C1 as stated fails on the all-spaces name: the result is \<open>"***"\<close>, which does not
  start with \<open>file_\<close>.
\<close>

theorem sanitize_spaces_counterexample:
  "sanitize_filename 1700000000 ''   '' = ''***''
   \<and> take 5 (sanitize_filename 1700000000 ''   '') \<noteq> ''file_''"
  by (simp add: sanitize_filename_unfold clean_char_def strip_def isspace_def)

text \<open>
  Claim C2. For every name and clock reading, \<open>_sanitize_filename\<close> returns what the four
  steps of the specification give, in their order: spaces to \<open>*\<close>; each of
  \<open><\<close>, \<open>>\<close>, \<open>:\<close>, the double quote, \<open>|\<close>, \<open>?\<close> and the backslash to \<open>_\<close> with asterisks left alone; a generated \<open>file_<timestamp>\<close> when
  the result is empty or all whitespace; trimming.
\<close>

theorem sanitize_refines_spec: "sanitize_filename now name = sanitize_spec now name"
proof -
  have passes: "map clean_char name =
        map (\<lambda>c. if c \<in> set [CHR ''<'', CHR ''>'', CHR '':'', CHR 0x22, CHR ''|'', CHR ''?'', CHR 0x5C]
                  then CHR ''_'' else c)
          (map (\<lambda>c. if c = CHR '' '' then CHR ''*'' else c) name)"
    by (simp add: clean_char_def)
  have blank: "\<And>s. (strip s = []) = (s = [] \<or> list_all isspace s)"
    by (auto simp: strip_Nil_iff)
  show ?thesis
    unfolding sanitize_filename_unfold sanitize_spec_def Let_def generated_name_def passes blank
    by (rule refl)
qed

text \<open>
  Claim C8. Sanitizing is idempotent: sanitizing a sanitized name returns it unchanged,
  whatever the clock reads at either call.
\<close>

theorem sanitize_idempotent:
  "sanitize_filename later (sanitize_filename now x) = sanitize_filename now x"
  by (rule sanitize_filename_fixed)

section \<open>The remote client\<close>

lemma make_github_request_world:
  "snd (make_github_request srv method endpoint data w) =
     w\<lparr>calls := calls w @ [build_request (github_token w) method endpoint data]\<rparr>"
  by (simp add: make_github_request_def Let_def split: reply.split)




section \<open>The rate limiter\<close>

lemma check_rate_limit_unfold:
  "check_rate_limit now user_id w =
     (if now - last_accepted w user_id < 10 then (False, w)
      else (True, w\<lparr>last_upload := (last_upload w)(user_id \<mapsto> now)\<rparr>))"
  by (simp add: check_rate_limit_def last_accepted_def)

text \<open>
  Claim C3, as amended. With a stored timestamp \<open>t\<close> for the identity, the check at time
  \<open>now\<close> returns false and leaves the state as it is when \<open>now - t < 10\<close>, and otherwise
  stores \<open>now\<close> for that identity and returns true. An identity with no stored entry is
  treated as last accepted at time \<open>0\<close>: it is rejected when \<open>now < 10\<close> and accepted
  otherwise. After an accepted call at \<open>t1\<close>, a call for the same identity at \<open>t2\<close> is
  rejected without a change when \<open>t2 - t1 < 10\<close>, and accepted with \<open>t2\<close> stored otherwise.
\<close>

theorem check_rate_limit_cases:
  "(last_upload w user_id = Some t \<and> now - t < 10 \<longrightarrow> check_rate_limit now user_id w = (False, w))
   \<and> (last_upload w user_id = Some t \<and> \<not> now - t < 10 \<longrightarrow>
        check_rate_limit now user_id w = (True, w\<lparr>last_upload := (last_upload w)(user_id \<mapsto> now)\<rparr>))
   \<and> (last_upload w user_id = None \<and> now < 10 \<longrightarrow> check_rate_limit now user_id w = (False, w))
   \<and> (last_upload w user_id = None \<and> \<not> now < 10 \<longrightarrow>
        check_rate_limit now user_id w = (True, w\<lparr>last_upload := (last_upload w)(user_id \<mapsto> now)\<rparr>))
   \<and> (fst (check_rate_limit t1 user_id w) \<and> t2 - t1 < 10 \<longrightarrow>
        check_rate_limit t2 user_id (snd (check_rate_limit t1 user_id w)) =
          (False, snd (check_rate_limit t1 user_id w)))
   \<and> (fst (check_rate_limit t1 user_id w) \<and> \<not> t2 - t1 < 10 \<longrightarrow>
        check_rate_limit t2 user_id (snd (check_rate_limit t1 user_id w)) =
          (True, w\<lparr>last_upload := (last_upload w)(user_id \<mapsto> t2)\<rparr>))"
  by (simp add: check_rate_limit_def)

theorem check_rate_limit_cases_witness:
  "check_rate_limit 1700000005 7 (example_world\<lparr>last_upload := [7 \<mapsto> 1700000000]\<rparr>) =
     (False, example_world\<lparr>last_upload := [7 \<mapsto> 1700000000]\<rparr>)
   \<and> fst (check_rate_limit 1700000010 7 (example_world\<lparr>last_upload := [7 \<mapsto> 1700000000]\<rparr>))
   \<and> \<not> fst (check_rate_limit 5 7 example_world)
   \<and> fst (check_rate_limit 1700000000 7 example_world)
   \<and> \<not> fst (check_rate_limit 1700000009 7 (snd (check_rate_limit 1700000000 7 example_world)))
   \<and> fst (check_rate_limit 1700000010 7 (snd (check_rate_limit 1700000000 7 example_world)))"
  using check_rate_limit_cases
      [of "example_world\<lparr>last_upload := [7 \<mapsto> 1700000000]\<rparr>" 7 1700000000 1700000005 1700000000 1700000009]
    check_rate_limit_cases
      [of "example_world\<lparr>last_upload := [7 \<mapsto> 1700000000]\<rparr>" 7 1700000000 1700000010 1700000000 1700000010]
    check_rate_limit_cases [of example_world 7 0 5 1700000000 1700000009]
    check_rate_limit_cases [of example_world 7 0 1700000000 1700000000 1700000010]
  by (simp add: example_world_def)

text \<open>
  Claim C3 as stated fails for an identity with no stored entry when the clock reads less
  than 10 seconds: the request is rejected.
\<close>

theorem check_rate_limit_counterexample:
  "last_upload example_world 7 = None \<and> check_rate_limit 5 7 example_world = (False, example_world)"
  by (simp add: check_rate_limit_def example_world_def)

section \<open>Setting the token\<close>



section \<open>The collision resolver\<close>

lemma make_github_request_static:
  assumes "static srv" and "github_token w' = github_token w"
  shows "fst (make_github_request srv method endpoint data w') =
         fst (make_github_request srv method endpoint data w)"
proof -
  have "srv (calls w') = srv (calls w)" using assms(1) unfolding static_def by metis
  then show ?thesis
    using assms(2) by (simp add: make_github_request_def Let_def split: reply.split)
qed

lemma lookup_succeeds_static:
  assumes "static srv" and "github_token w' = github_token w"
  shows "lookup_succeeds srv w' username repo_name path = lookup_succeeds srv w username repo_name path"
  unfolding lookup_succeeds_def using make_github_request_static [OF assms] by simp

lemma probe_finds:
  assumes static: "static srv"
  shows "github_token w' = github_token w \<Longrightarrow>
         (\<forall>j<n. lookup_succeeds srv w username repo_name (candidate filename (c + j))) \<Longrightarrow>
         \<not> lookup_succeeds srv w username repo_name (candidate filename (c + n)) \<Longrightarrow>
         map_option fst (probe srv username repo_name (fst (splitext filename)) (snd (splitext filename))
            c (candidate filename c) w') = Some (candidate filename (c + n))"
proof (induction n arbitrary: c w')
  case 0
  let ?r = "make_github_request srv ''GET'' (contents_endpoint username repo_name (candidate filename c)) None w'"
  obtain a w2 where r: "?r = (a, w2)" by (cases ?r)
  have "\<not> lookup_succeeds srv w' username repo_name (candidate filename c)"
    using 0 lookup_succeeds_static [OF static "0.prems"(1)] by simp
  then obtain e where "a = Inl e"
    using r by (cases a) (simp_all add: lookup_succeeds_def)
  then show ?case
    using r by (subst probe.simps) simp
next
  case (Suc n)
  let ?r = "make_github_request srv ''GET'' (contents_endpoint username repo_name (candidate filename c)) None w'"
  have "lookup_succeeds srv w username repo_name (candidate filename (c + 0))"
    using Suc.prems(2) by blast
  then have ok: "lookup_succeeds srv w' username repo_name (candidate filename c)"
    using lookup_succeeds_static [OF static Suc.prems(1)] by simp
  obtain a w2 where r: "?r = (a, w2)" by (cases ?r)
  from ok obtain b where b: "a = Inr b"
    using r by (cases a) (simp_all add: lookup_succeeds_def)
  have "w2 = snd ?r" using r by simp
  then have tok: "github_token w2 = github_token w"
    using Suc.prems(1) by (simp add: make_github_request_world)
  have next_name: "fst (splitext filename) @ ''_'' @ str_nat (c + 1) @ snd (splitext filename) = candidate filename (Suc c)"
    by (simp add: candidate_def)
  have "map_option fst (probe srv username repo_name (fst (splitext filename)) (snd (splitext filename))
            (Suc c) (candidate filename (Suc c)) w2) = Some (candidate filename (Suc c + n))"
  proof (rule Suc.IH [OF tok])
    show "\<forall>j<n. lookup_succeeds srv w username repo_name (candidate filename (Suc c + j))"
      using Suc.prems(2) by (metis Suc_less_eq add_Suc_shift)
    show "\<not> lookup_succeeds srv w username repo_name (candidate filename (Suc c + n))"
      using Suc.prems(3) by simp
  qed
  moreover have "probe srv username repo_name (fst (splitext filename)) (snd (splitext filename))
            c (candidate filename c) w' =
          probe srv username repo_name (fst (splitext filename)) (snd (splitext filename))
            (c + 1) (fst (splitext filename) @ ''_'' @ str_nat (c + 1) @ snd (splitext filename)) w2"
    using r b by (subst probe.simps) simp
  ultimately show ?case
    unfolding next_name by simp
qed

lemma splitext_a_txt: "splitext ''a.txt'' = (''a'', ''.txt'')"
  by (simp add: splitext_def rfind_def Let_def upt_rec)

lemma candidates_a_txt:
  "candidate ''a.txt'' 0 = ''a.txt''" "candidate ''a.txt'' 1 = ''a_1.txt''" "candidate ''a.txt'' 2 = ''a_2.txt''"
  by (simp_all add: candidate_def splitext_a_txt str_nat.simps digit_char_def)


lemma get_unique_filename_probe:
  "get_unique_filename srv username repo_name filename w =
     probe srv username repo_name (fst (splitext filename)) (snd (splitext filename)) 0
       (candidate filename 0) w"
  by (simp add: get_unique_filename_def candidate_def case_prod_beta)

lemma get_unique_filename_least:
  assumes static: "static srv"
    and free: "\<exists>k. candidate filename k \<notin> repo_paths srv w username repo_name"
  shows "map_option fst (get_unique_filename srv username repo_name filename w) =
           Some (candidate filename (LEAST k. candidate filename k \<notin> repo_paths srv w username repo_name))"
proof -
  define free where "free k = (\<not> lookup_succeeds srv w username repo_name (candidate filename k))" for k
  define n where "n = (LEAST k. free k)"
  have eq: "(\<lambda>k. candidate filename k \<notin> repo_paths srv w username repo_name) = free"
    by (rule ext) (simp add: free_def repo_paths_def)
  from free have "\<exists>k. free k" unfolding eq .
  then have "free n" unfolding n_def by (rule LeastI_ex)
  then have stop: "\<not> lookup_succeeds srv w username repo_name (candidate filename (0 + n))"
    by (simp add: free_def)
  have before: "\<forall>j<n. lookup_succeeds srv w username repo_name (candidate filename (0 + j))"
  proof (intro allI impI)
    fix j assume "j < n"
    then have "\<not> free j" unfolding n_def by (rule not_less_Least)
    then show "lookup_succeeds srv w username repo_name (candidate filename (0 + j))"
      by (simp add: free_def)
  qed
  have "map_option fst (probe srv username repo_name (fst (splitext filename)) (snd (splitext filename))
            0 (candidate filename 0) w) = Some (candidate filename (0 + n))"
    using static refl before stop by (rule probe_finds)
  then show ?thesis
    unfolding get_unique_filename_probe eq n_def by simp
qed

lemma least_free_a_txt:
  assumes "candidate ''a.txt'' 0 \<in> S" and "candidate ''a.txt'' 1 \<in> S" and "candidate ''a.txt'' 2 \<notin> S"
  shows "(LEAST k. candidate ''a.txt'' k \<notin> S) = 2"
proof (rule Least_equality)
  show "candidate ''a.txt'' 2 \<notin> S" by (rule assms(3))
  fix k assume k: "candidate ''a.txt'' k \<notin> S"
  show "2 \<le> k"
  proof (rule ccontr)
    assume "\<not> 2 \<le> k"
    then have "k = 0 \<or> k = 1" by arith
    then show False
    proof
      assume "k = 0" with k assms(1) show False by simp
    next
      assume "k = 1" with k assms(2) show False by simp
    qed
  qed
qed

text \<open>
  Claim C4. For a static remote, whatever set of paths its lookups find: when some
  candidate is free, \<open>_get_unique_filename\<close> returns, and its result is the first candidate
  of the sequence \<open>filename\<close>, \<open>stem_1ext\<close>, \<open>stem_2ext\<close>, ... whose lookup fails. In
  particular, with \<open>a.txt\<close> and \<open>a_1.txt\<close> present and \<open>a_2.txt\<close> absent, resolving \<open>a.txt\<close>
  returns \<open>a_2.txt\<close>.
\<close>

theorem get_unique_filename_first_free:
  assumes "static srv"
  shows "((\<exists>k. candidate filename k \<notin> repo_paths srv w username repo_name) \<longrightarrow>
            map_option fst (get_unique_filename srv username repo_name filename w) =
              Some (candidate filename (LEAST k. candidate filename k \<notin> repo_paths srv w username repo_name)))
         \<and> (''a.txt'' \<in> repo_paths srv w username repo_name
              \<and> ''a_1.txt'' \<in> repo_paths srv w username repo_name
              \<and> ''a_2.txt'' \<notin> repo_paths srv w username repo_name \<longrightarrow>
            map_option fst (get_unique_filename srv username repo_name ''a.txt'' w) = Some ''a_2.txt'')"
proof (intro conjI impI)
  assume "\<exists>k. candidate filename k \<notin> repo_paths srv w username repo_name"
  with assms show "map_option fst (get_unique_filename srv username repo_name filename w) =
      Some (candidate filename (LEAST k. candidate filename k \<notin> repo_paths srv w username repo_name))"
    by (rule get_unique_filename_least)
next
  let ?S = "repo_paths srv w username repo_name"
  assume "''a.txt'' \<in> ?S \<and> ''a_1.txt'' \<in> ?S \<and> ''a_2.txt'' \<notin> ?S"
  then have a: "candidate ''a.txt'' 0 \<in> ?S" "candidate ''a.txt'' 1 \<in> ?S" "candidate ''a.txt'' 2 \<notin> ?S"
    unfolding candidates_a_txt by simp_all
  then have l: "(LEAST k. candidate ''a.txt'' k \<notin> ?S) = 2" by (rule least_free_a_txt)
  from a(3) have "\<exists>k. candidate ''a.txt'' k \<notin> ?S" ..
  with assms have "map_option fst (get_unique_filename srv username repo_name ''a.txt'' w) =
      Some (candidate ''a.txt'' (LEAST k. candidate ''a.txt'' k \<notin> ?S))"
    by (rule get_unique_filename_least)
  then show "map_option fst (get_unique_filename srv username repo_name ''a.txt'' w) = Some ''a_2.txt''"
    unfolding l candidates_a_txt .
qed

theorem get_unique_filename_first_free_witness:
  "static example_server
   \<and> ''a.txt'' \<in> repo_paths example_server example_world ''octo'' ''git-42-files''
   \<and> ''a_1.txt'' \<in> repo_paths example_server example_world ''octo'' ''git-42-files''
   \<and> ''a_2.txt'' \<notin> repo_paths example_server example_world ''octo'' ''git-42-files''
   \<and> map_option fst (get_unique_filename example_server ''octo'' ''git-42-files'' ''a.txt'' example_world)
       = Some ''a_2.txt''"
proof -
  have s: "static example_server" by (auto simp: static_def example_server_def intro!: ext)
  have p: "''a.txt'' \<in> repo_paths example_server example_world ''octo'' ''git-42-files''"
    "''a_1.txt'' \<in> repo_paths example_server example_world ''octo'' ''git-42-files''"
    "''a_2.txt'' \<notin> repo_paths example_server example_world ''octo'' ''git-42-files''"
    by (simp_all add: repo_paths_def lookup_succeeds_def make_github_request_def build_request_def
        contents_endpoint_def example_server_def example_world_def)
  show ?thesis
    using s p get_unique_filename_first_free [OF s, of "''a.txt''" example_world "''octo''" "''git-42-files''"]
    by blast
qed

section \<open>The upload command\<close>

lemma ghuploadcmd_early:
  "github_token w = [] \<Longrightarrow> ghuploadcmd srv me_id now later msg w = Some ([NoToken], w)"
  "github_token w \<noteq> [] \<Longrightarrow> now - last_accepted w (sender_id msg) < 10 \<Longrightarrow>
     ghuploadcmd srv me_id now later msg w = Some ([RateLimit], w)"
  "github_token w \<noteq> [] \<Longrightarrow> \<not> now - last_accepted w (sender_id msg) < 10 \<Longrightarrow> reply_to msg = None \<Longrightarrow>
     ghuploadcmd srv me_id now later msg w =
       Some ([NoFile], w\<lparr>last_upload := (last_upload w)(sender_id msg \<mapsto> now)\<rparr>)"
  "github_token w \<noteq> [] \<Longrightarrow> \<not> now - last_accepted w (sender_id msg) < 10 \<Longrightarrow>
     reply_to msg = Some reply \<Longrightarrow> reply_file reply = None \<Longrightarrow>
     ghuploadcmd srv me_id now later msg w =
       Some ([NoFile], w\<lparr>last_upload := (last_upload w)(sender_id msg \<mapsto> now)\<rparr>)"
  "github_token w \<noteq> [] \<Longrightarrow> \<not> now - last_accepted w (sender_id msg) < 10 \<Longrightarrow>
     reply_to msg = Some reply \<Longrightarrow> reply_file reply = Some f \<Longrightarrow> file_size f > 100 * 1024 * 1024 \<Longrightarrow>
     ghuploadcmd srv me_id now later msg w =
       Some ([FileTooLarge], w\<lparr>last_upload := (last_upload w)(sender_id msg \<mapsto> now)\<rparr>)"
  by (simp_all add: ghuploadcmd_def check_rate_limit_unfold)

lemma ghuploadcmd_late:
  assumes "github_token w \<noteq> []" "\<not> now - last_accepted w (sender_id msg) < 10"
    "reply_to msg = Some reply" "reply_file reply = Some f" "\<not> file_size f > 100 * 1024 * 1024"
    "ghuploadcmd srv me_id now later msg w = Some (answers, w')"
  shows "\<exists>a. answers = [Uploading, a] \<and> a \<noteq> InvalidFilename \<and> a \<noteq> NoFile \<and> a \<noteq> FileTooLarge"
  using assms
  by (auto simp: ghuploadcmd_def check_rate_limit_unfold Let_def sanitize_filename_not_Nil
      split: option.splits prod.splits sum.splits exn.splits)

lemma ghuploadcmd_answers:
  assumes "ghuploadcmd srv me_id now later msg w = Some (answers, w')"
  shows "answers = [NoToken] \<or> answers = [RateLimit] \<or> answers = [NoFile] \<or> answers = [FileTooLarge]
         \<or> (\<exists>a. answers = [Uploading, a] \<and> a \<noteq> InvalidFilename)"
proof (cases "github_token w = []")
  case True
  with assms ghuploadcmd_early(1) [OF True] show ?thesis by simp
next
  case token: False
  show ?thesis
  proof (cases "now - last_accepted w (sender_id msg) < 10")
    case True
    with assms ghuploadcmd_early(2) [OF token True] show ?thesis by simp
  next
    case accepted: False
    show ?thesis
    proof (cases "reply_to msg")
      case None
      with assms ghuploadcmd_early(3) [OF token accepted None] show ?thesis by simp
    next
      case (Some reply)
      note reply = Some
      show ?thesis
      proof (cases "reply_file reply")
        case None
        with assms ghuploadcmd_early(4) [OF token accepted reply None] show ?thesis by simp
      next
        case (Some f)
        show ?thesis
        proof (cases "file_size f > 100 * 1024 * 1024")
          case True
          with assms ghuploadcmd_early(5) [OF token accepted reply Some True] show ?thesis by simp
        next
          case False
          from ghuploadcmd_late [OF token accepted reply Some False assms] show ?thesis by blast
        qed
      qed
    qed
  qed
qed

text \<open>
  Claim C6, as amended. For every upload request whose attachment is larger than 100 MiB,
  the command ends with no request to the remote API. Its answer is the file-too-large
  message when a token is configured and the rate check accepts the sender; without a
  token it is the no-token message, and when the rate check rejects it is the rate-limit
  message, since both checks come first.
\<close>

theorem oversized_upload_no_remote_call:
  assumes "reply_to msg = Some reply" and "reply_file reply = Some f"
    and "file_size f > 100 * 1024 * 1024"
  shows "map_option (\<lambda>(answers, w'). (answers, calls w')) (ghuploadcmd srv me_id now later msg w) =
           Some (if github_token w = [] then [NoToken]
                 else if \<not> fst (check_rate_limit now (sender_id msg) w) then [RateLimit]
                 else [FileTooLarge],
                 calls w)"
proof (cases "github_token w = []")
  case True
  then show ?thesis by (simp add: ghuploadcmd_early(1))
next
  case token: False
  show ?thesis
  proof (cases "now - last_accepted w (sender_id msg) < 10")
    case True
    with token show ?thesis by (simp add: ghuploadcmd_early(2) check_rate_limit_unfold)
  next
    case False
    with token assms show ?thesis by (simp add: ghuploadcmd_early(5) check_rate_limit_unfold)
  qed
qed

theorem oversized_upload_no_remote_call_witness:
  "map_option (\<lambda>(answers, w'). (answers, calls w'))
     (ghuploadcmd down_server 42 1700000000 1700000001 big_message example_world) =
   Some ([FileTooLarge], [])"
  using oversized_upload_no_remote_call
    [of big_message "\<lparr>reply_file = Some \<lparr>file_name = Some ''big.bin'', file_size = 150000000, media = []\<rparr>\<rparr>"
      "\<lparr>file_name = Some ''big.bin'', file_size = 150000000, media = []\<rparr>"
      down_server 42 1700000000 1700000001 example_world]
  by (simp add: big_message_def example_world_def check_rate_limit_def)

text \<open>
  Claim C6 as stated fails: a file of 150 MB sent while no token is configured gets the
  no-token message, and one sent 5 seconds after an accepted request of the same sender
  gets the rate-limit message.
\<close>

theorem oversized_upload_counterexample:
  "map_option fst (ghuploadcmd down_server 42 1700000000 1700000001 big_message tokenless_world) =
     Some [NoToken]
   \<and> map_option fst (ghuploadcmd down_server 42 1700000005 1700000006 big_message
         (example_world\<lparr>last_upload := [7 \<mapsto> 1700000000]\<rparr>)) = Some [RateLimit]"
  by (simp add: ghuploadcmd_def check_rate_limit_def big_message_def tokenless_world_def
      example_world_def)

text \<open>
  Claim C9. The sanitizer never returns the empty string; so no run of the upload command
  sends the invalid-filename message.
\<close>

theorem invalid_filename_unreachable:
  "sanitize_filename later name \<noteq> []
   \<and> (\<forall>answers w'. ghuploadcmd srv me_id now later msg w = Some (answers, w') \<longrightarrow>
         InvalidFilename \<notin> set answers)"
proof -
  have "InvalidFilename \<notin> set answers"
    if "ghuploadcmd srv me_id now later msg w = Some (answers, w')" for answers w'
    using ghuploadcmd_answers [OF that] by auto
  then show ?thesis by (simp add: sanitize_filename_not_Nil)
qed

theorem invalid_filename_unreachable_witness:
  "sanitize_filename 1700000001 ''   '' \<noteq> []
   \<and> ghuploadcmd down_server 42 1700000000 1700000001 small_message example_world \<noteq> None
   \<and> InvalidFilename \<notin>
       set (fst (the (ghuploadcmd down_server 42 1700000000 1700000001 small_message example_world)))"
proof -
  obtain answers w' where
    r: "ghuploadcmd down_server 42 1700000000 1700000001 small_message example_world = Some (answers, w')"
    by (simp add: ghuploadcmd_def check_rate_limit_def small_message_def example_world_def
        sanitize_filename_not_Nil upload_steps_def get_github_username_def make_github_request_def
        down_server_def Let_def)
  then show ?thesis
    using invalid_filename_unreachable
      [of 1700000001 "''   ''" down_server 42 1700000000 small_message example_world]
    by simp
qed

text \<open>
  Claim C10. The timestamp of the sender is stored when the rate check passes, before the
  attachment is looked at: a request answered with the no-file or the file-too-large message
  changes nothing of the state but that timestamp (so it made no request to the remote), and
  the next request of the same sender less than 10 seconds later gets the rate-limit message.
\<close>

theorem rejected_upload_consumes_cooldown:
  assumes "ghuploadcmd srv me_id now later msg w = Some (answers, w')"
    and "answers = [NoFile] \<or> answers = [FileTooLarge]"
  shows "w' = w\<lparr>last_upload := (last_upload w)(sender_id msg \<mapsto> now)\<rparr>
         \<and> (sender_id msg2 = sender_id msg \<and> now2 - now < 10 \<longrightarrow>
              ghuploadcmd srv2 me_id2 now2 later2 msg2 w' = Some ([RateLimit], w'))"
proof -
  have token: "github_token w \<noteq> []"
    using assms ghuploadcmd_early(1) [of w srv me_id now later msg] by auto
  have accepted: "\<not> now - last_accepted w (sender_id msg) < 10"
    using assms token ghuploadcmd_early(2) [of w now msg srv me_id later] by auto
  have w': "w' = w\<lparr>last_upload := (last_upload w)(sender_id msg \<mapsto> now)\<rparr>"
  proof (cases "reply_to msg")
    case None
    with assms ghuploadcmd_early(3) [OF token accepted None] show ?thesis by simp
  next
    case (Some reply)
    note reply = Some
    show ?thesis
    proof (cases "reply_file reply")
      case None
      with assms ghuploadcmd_early(4) [OF token accepted reply None] show ?thesis by simp
    next
      case (Some f)
      show ?thesis
      proof (cases "file_size f > 100 * 1024 * 1024")
        case True
        with assms ghuploadcmd_early(5) [OF token accepted reply Some True] show ?thesis by simp
      next
        case False
        from ghuploadcmd_late [OF token accepted reply Some False assms(1)] assms(2)
        show ?thesis by auto
      qed
    qed
  qed
  have "ghuploadcmd srv2 me_id2 now2 later2 msg2 w' = Some ([RateLimit], w')"
    if "sender_id msg2 = sender_id msg" "now2 - now < 10"
  proof (rule ghuploadcmd_early(2))
    show "github_token w' \<noteq> []" using token w' by simp
    show "now2 - last_accepted w' (sender_id msg2) < 10"
      using that w' by (simp add: last_accepted_def)
  qed
  with w' show ?thesis by blast
qed

theorem rejected_upload_consumes_cooldown_witness:
  "ghuploadcmd example_server 42 1700000000 1700000001 bare_message example_world =
     Some ([NoFile], example_world\<lparr>last_upload := [7 \<mapsto> 1700000000]\<rparr>)
   \<and> ghuploadcmd example_server 42 1700000009 1700000009 small_message
       (example_world\<lparr>last_upload := [7 \<mapsto> 1700000000]\<rparr>) =
     Some ([RateLimit], example_world\<lparr>last_upload := [7 \<mapsto> 1700000000]\<rparr>)"
proof -
  have r: "ghuploadcmd example_server 42 1700000000 1700000001 bare_message example_world =
     Some ([NoFile], example_world\<lparr>last_upload := [7 \<mapsto> 1700000000]\<rparr>)"
    by (simp add: ghuploadcmd_def check_rate_limit_def bare_message_def example_world_def)
  have "sender_id small_message = sender_id bare_message" "(1700000009::real) - 1700000000 < 10"
    by (simp_all add: small_message_def bare_message_def)
  then show ?thesis
    using r rejected_upload_consumes_cooldown
      [OF r, of small_message 1700000009 example_server 42 1700000009]
    by (simp add: bare_message_def example_world_def)
qed

end
